theory Spec2Isabelle
  imports Complex_Main
begin

section \<open>Python values, exceptions and strings\<close>

text \<open>
  The program is the command-line script \<^verbatim>\<open>src/easylens/cli.py\<close>: one function
  \<^verbatim>\<open>main\<close> that loops over the images of a microscope project, extracts channel
  frames, paints them with \<^verbatim>\<open>plt.imshow\<close> and saves one PNG per image.
  Exceptions are values of \<open>py_error\<close>; a computation that may raise returns
  \<open>py_error + 'a\<close> with \<open>Inl\<close> for the exception.
  \<open>SystemExit\<close> is argparse rejecting the command line, \<open>OtherError\<close> any exception
  whose class the model does not track.
\<close>

datatype py_error =
  ValueError | IndexError | KeyError | UnboundLocalError | SystemExit | OtherError

text \<open>
  The values the two threshold parameters can hold: the integer defaults of the
  signature and of argparse, or the string token argparse stores for an option that
  declares no \<^verbatim>\<open>type=\<close>.
\<close>

datatype pyval = PyInt int | PyStr string

text \<open>\<^verbatim>\<open>str(n)\<close> for an integer: decimal digits, a leading minus sign when negative.\<close>

definition digit_char :: "nat \<Rightarrow> char" where
  "digit_char d = ''0123456789'' ! d"

fun str_nat :: "nat \<Rightarrow> string" where
  "str_nat n = (if n < 10 then [digit_char n] else str_nat (n div 10) @ [digit_char (n mod 10)])"

definition str_int :: "int \<Rightarrow> string" where
  "str_int n = (if n < 0 then CHR ''-'' # str_nat (nat (- n)) else str_nat (nat n))"

text \<open>\<^verbatim>\<open>sep.join(xs)\<close>.\<close>

fun join :: "string \<Rightarrow> string list \<Rightarrow> string" where
  "join sep [] = []"
| "join sep [x] = x"
| "join sep (x # y # ys) = x @ sep @ join sep (y # ys)"

text \<open>\<^verbatim>\<open>range(n)\<close> as the list it iterates over; empty when \<open>n \<le> 0\<close>.\<close>

definition py_range :: "int \<Rightarrow> int list" where
  "py_range n = [0 .. n - 1]"

text \<open>
  \<^verbatim>\<open>fmt.format(*args)\<close> for the format strings the program builds: literal text, the
  escapes \<^verbatim>\<open>{{\<close> and \<^verbatim>\<open>}}\<close>, and automatically numbered fields \<^verbatim>\<open>{}\<close>. The
  arguments are passed already rendered by \<^verbatim>\<open>str\<close>. A field beyond the last argument
  is Python's IndexError, a lone brace its ValueError. A field that carries a name, an
  index, a conversion or a format spec is \<open>OtherError\<close>: in \<^verbatim>\<open>main\<close> every format
  string ends in three automatic fields and gets three arguments, so such a field
  always raises (ValueError, KeyError or IndexError, by its form).
\<close>

fun format_str :: "string \<Rightarrow> string list \<Rightarrow> py_error + string" where
  "format_str [] args = Inr []"
| "format_str [c] args = (if c = CHR ''{'' \<or> c = CHR ''}'' then Inl ValueError else Inr [c])"
| "format_str (c # d # rest) args =
     (if c = CHR ''{'' \<and> d = CHR ''{'' then map_sum id ((#) c) (format_str rest args)
      else if c = CHR ''{'' \<and> d = CHR ''}'' then
        (case args of
           [] \<Rightarrow> Inl IndexError
         | a # as \<Rightarrow> map_sum id ((@) a) (format_str rest as))
      else if c = CHR ''{'' then Inl OtherError
      else if c = CHR ''}'' \<and> d = CHR ''}'' then map_sum id ((#) c) (format_str rest args)
      else if c = CHR ''}'' then Inl ValueError
      else map_sum id ((#) c) (format_str (d # rest) args))"

section \<open>Paths (pathlib, POSIX flavour)\<close>

text \<open>
  A \<^verbatim>\<open>Path\<close> is its root and its components. Parsing a string drops empty and
  \<^verbatim>\<open>.\<close> components; exactly two leading slashes are kept as the root \<^verbatim>\<open>//\<close>.
\<close>

record path =
  p_root :: string
  p_parts :: "string list"

fun split_sep :: "string \<Rightarrow> string list" where
  "split_sep [] = [[]]"
| "split_sep (c # cs) =
     (if c = CHR ''/'' then [] # split_sep cs
      else (case split_sep cs of [] \<Rightarrow> [[c]] | w # ws \<Rightarrow> (c # w) # ws))"

definition Path :: "string \<Rightarrow> path" where
  "Path s =
     \<lparr> p_root =
         (if take 2 s = ''//'' \<and> take 3 s \<noteq> ''///'' then ''//''
          else if take 1 s = ''/'' then ''/'' else []),
       p_parts = filter (\<lambda>p. p \<noteq> [] \<and> p \<noteq> ''.'') (split_sep s) \<rparr>"

text \<open>\<^verbatim>\<open>Path(p, name)\<close> for a relative second argument.\<close>

definition Path2 :: "string \<Rightarrow> string \<Rightarrow> path" where
  "Path2 s name = (let p = Path s in p\<lparr>p_parts := p_parts p @ p_parts (Path name)\<rparr>)"

text \<open>\<^verbatim>\<open>os.fspath(p)\<close>, which is \<^verbatim>\<open>str(p)\<close>.\<close>

definition fspath :: "path \<Rightarrow> string" where
  "fspath p =
     (if p_root p = [] \<and> p_parts p = [] then ''.'' else p_root p @ join ''/'' (p_parts p))"

definition path_name :: "path \<Rightarrow> string" where
  "path_name p = (if p_parts p = [] then [] else last (p_parts p))"

text \<open>\<^verbatim>\<open>name.rfind(c)\<close>: the last position of the character, if any.\<close>

fun rfind :: "char \<Rightarrow> string \<Rightarrow> nat option" where
  "rfind c [] = None"
| "rfind c (x # xs) =
     (case rfind c xs of
        Some i \<Rightarrow> Some (Suc i)
      | None \<Rightarrow> (if x = c then Some 0 else None))"

text \<open>
  \<^verbatim>\<open>suffix\<close> and \<^verbatim>\<open>stem\<close> (Python 3.7 to 3.10, the versions the package declares):
  the name is cut at its last dot when that dot is neither its first nor its last
  character.
\<close>

definition suffix :: "path \<Rightarrow> string" where
  "suffix p =
     (let name = path_name p in
      case rfind CHR ''.'' name of
        Some i \<Rightarrow> (if 0 < i \<and> i < length name - 1 then drop i name else [])
      | None \<Rightarrow> [])"

definition stem :: "path \<Rightarrow> string" where
  "stem p =
     (let name = path_name p in
      case rfind CHR ''.'' name of
        Some i \<Rightarrow> (if 0 < i \<and> i < length name - 1 then take i name else name)
      | None \<Rightarrow> name)"

text \<open>
  \<^verbatim>\<open>p.with_suffix(s)\<close> for a suffix \<open>s\<close> that is well formed (\<^verbatim>\<open>'.png'\<close> is the only
  one used): ValueError on an empty name; otherwise the old suffix, when there is one,
  is removed from the name and \<open>s\<close> is appended.
\<close>

definition with_suffix :: "path \<Rightarrow> string \<Rightarrow> py_error + path" where
  "with_suffix p s =
     (let name = path_name p in
      if name = [] then Inl ValueError
      else
        (let old_suffix = suffix p;
             name' = (if old_suffix = [] then name @ s
                      else take (length name - length old_suffix) name @ s)
         in Inr (p\<lparr>p_parts := butlast (p_parts p) @ [name']\<rparr>)))"

section \<open>The collaborators: project reader and renderer\<close>

text \<open>
  A pixel array is the two-dimensional array \<^verbatim>\<open>np.array(img_channel)\<close>, a list of
  rows. \<^verbatim>\<open>shape\<close> is (rows, columns); \<^verbatim>\<open>np.full(shape, v)\<close> is the constant array.
\<close>

type_synonym pix_array = "int list list"

definition shape :: "pix_array \<Rightarrow> nat \<times> nat" where
  "shape a = (length a, (case a of [] \<Rightarrow> 0 | r # _ \<Rightarrow> length r))"

definition full :: "nat \<times> nat \<Rightarrow> int \<Rightarrow> pix_array" where
  "full sh v = replicate (fst sh) (replicate (snd sh) v)"

text \<open>
  The reader library is a parameter of the model: an image reports its channel count
  and answers \<^verbatim>\<open>get_frame(z, t, c)\<close> with a frame or an exception; a project reports
  its number of images and answers \<^verbatim>\<open>get_image(i)\<close>. The environment opens a project
  file and tells whether a path is an existing directory.
\<close>

record lif_image =
  channels :: int
  get_frame :: "int \<Rightarrow> int \<Rightarrow> int \<Rightarrow> py_error + pix_array"

record lif_file =
  num_images :: int
  get_image :: "int \<Rightarrow> py_error + lif_image"

record env =
  LifFile :: "string \<Rightarrow> py_error + lif_file"
  is_dir :: "string \<Rightarrow> bool"

text \<open>
  A colour map built by \<^verbatim>\<open>LinearSegmentedColormap.from_list(name, colors)\<close>: the first
  colour is the map's zero end, the last its full end.
\<close>

datatype colormap = from_list string "string list"

definition cmap_bf :: colormap where "cmap_bf = from_list ''mycmap'' [''black'', ''white'']"
definition cmap_cyan :: colormap where "cmap_cyan = from_list ''mycmap'' [''black'', ''cyan'']"
definition cmap_dapi :: colormap where "cmap_dapi = from_list ''mycmap'' [''black'', ''blue'']"
definition cmap_green :: colormap where "cmap_green = from_list ''mycmap'' [''black'', ''lime'']"
definition cmap_magenta :: colormap where "cmap_magenta = from_list ''mycmap'' [''black'', ''magenta'']"
definition cmap_orange :: colormap where "cmap_orange = from_list ''mycmap'' [''black'', ''orange'']"
definition cmap_red :: colormap where "cmap_red = from_list ''mycmap'' [''black'', ''red'']"
definition cmap_yellow :: colormap where "cmap_yellow = from_list ''mycmap'' [''black'', ''yellow'']"

text \<open>The dictionary \<^verbatim>\<open>LUT\<close>, in insertion order (the order of \<^verbatim>\<open>LUT.keys()\<close>).\<close>

definition LUT :: "(string \<times> colormap) list" where
  "LUT =
     [(''bf'', cmap_bf),
      (''dapi'', cmap_dapi),
      (''red'', cmap_red),
      (''cyan'', cmap_cyan),
      (''green'', cmap_green),
      (''magenta'', cmap_magenta),
      (''orange'', cmap_orange),
      (''yellow'', cmap_yellow),
      (''blue'', cmap_dapi)]"

text \<open>
  One call of \<^verbatim>\<open>plt.imshow\<close> with the arguments the program passes; \<open>im_alpha\<close> is
  \<open>None\<close> when no \<^verbatim>\<open>alpha=\<close> is given. A figure is its size, its dpi and the calls
  painted on it, first to last. What the renderer computes from a call is outside the
  program.
\<close>

record imshow_call =
  im_data :: pix_array
  im_cmap :: colormap
  im_vmin :: pyval
  im_vmax :: pyval
  im_alpha :: "rat option"

record figure =
  figsize :: "rat \<times> rat"
  fig_dpi :: int
  images :: "imshow_call list"

text \<open>What a run does to the outside: lines printed and figures saved, in order.\<close>

datatype event = Print string | Savefig string figure

section \<open>The function main\<close>

text \<open>
  The local variables of \<^verbatim>\<open>main\<close> that live across iterations of the loop over
  image indices: the parameters \<^verbatim>\<open>channels\<close> and \<^verbatim>\<open>cmaps\<close> (\<open>None\<close> until given or
  defaulted), the loop variable \<^verbatim>\<open>channel\<close> (\<open>None\<close> while unbound), and the events so
  far.
\<close>

record locals =
  channels_var :: "int list option"
  cmaps_var :: "string list option"
  channel_var :: "int option"
  events :: "event list"

text \<open>Lines 140 to 146: the format string of the output names.\<close>

definition output_fmt_of :: "env \<Rightarrow> path \<Rightarrow> string option \<Rightarrow> string" where
  "output_fmt_of e lif output =
     (case output of
        None \<Rightarrow> stem lif @ ''_i{}_z{}_c{}''
      | Some out \<Rightarrow>
          (if is_dir e out then fspath (Path2 out ''i{}_z{}_c{}'')
           else out @ ''_i{}_z{}_c{}''))"

text \<open>
  Lines 154 to 162: the loop over the requested channels. Each iteration binds
  \<^verbatim>\<open>channel\<close>; a ValueError of \<^verbatim>\<open>get_frame\<close> breaks out of the loop, any other
  exception propagates, a frame is appended to \<^verbatim>\<open>pix_arrays\<close>.
\<close>

fun extract_loop ::
  "lif_image \<Rightarrow> int \<Rightarrow> int list \<Rightarrow> int option \<Rightarrow> pix_array list
    \<Rightarrow> py_error + (pix_array list \<times> int option)" where
  "extract_loop img zindex [] channel pix_arrays = Inr (pix_arrays, channel)"
| "extract_loop img zindex (c # cs) channel pix_arrays =
     (case get_frame img zindex 0 c of
        Inl e \<Rightarrow> (if e = ValueError then Inr (pix_arrays, Some c) else Inl e)
      | Inr img_channel \<Rightarrow> extract_loop img zindex cs (Some c) (pix_arrays @ [img_channel]))"

text \<open>
  Lines 180 to 187: one \<^verbatim>\<open>imshow\<close> per pair of \<^verbatim>\<open>zip(cmaps, pix_arrays)\<close>;
  \<^verbatim>\<open>LUT[cmap]\<close> raises KeyError for a name that is not a key.
\<close>

fun paint ::
  "(string \<times> pix_array) list \<Rightarrow> pyval \<Rightarrow> pyval \<Rightarrow> rat \<Rightarrow> py_error + imshow_call list" where
  "paint [] low_threshold high_threshold alpha = Inr []"
| "paint ((cmap, pix_array) # rest) low_threshold high_threshold alpha =
     (case map_of LUT cmap of
        None \<Rightarrow> Inl KeyError
      | Some cm \<Rightarrow>
          (case paint rest low_threshold high_threshold alpha of
             Inl e \<Rightarrow> Inl e
           | Inr calls \<Rightarrow>
               Inr (\<lparr> im_data = pix_array, im_cmap = cm, im_vmin = low_threshold,
                      im_vmax = high_threshold, im_alpha = Some alpha \<rparr> # calls)))"

text \<open>Lines 175 and 176: the first call, on the constant array \<^verbatim>\<open>np.full(shape, 1)\<close>.\<close>

definition black_background :: "pix_array \<Rightarrow> imshow_call" where
  "black_background pix0 =
     \<lparr> im_data = full (shape pix0) 1, im_cmap = cmap_bf, im_vmin = PyInt 0,
       im_vmax = PyInt 1, im_alpha = None \<rparr>"

text \<open>Line 179.\<close>

definition alpha_of :: "pix_array list \<Rightarrow> rat" where
  "alpha_of pix_arrays = (if length pix_arrays > 1 then 1 / 2 else 1)"

text \<open>
  Lines 173 to 187: the figure of one image, for a non-empty \<^verbatim>\<open>pix_arrays\<close> whose
  first array is \<open>pix0\<close>. The size is the exact quotient (Python rounds it to a double).
\<close>

definition render ::
  "string list \<Rightarrow> pix_array \<Rightarrow> pix_array list \<Rightarrow> pyval \<Rightarrow> pyval \<Rightarrow> py_error + figure" where
  "render cmaps pix0 pix_arrays low_threshold high_threshold =
     (case paint (zip cmaps pix_arrays) low_threshold high_threshold (alpha_of pix_arrays) of
        Inl e \<Rightarrow> Inl e
      | Inr calls \<Rightarrow>
          Inr \<lparr> figsize = (of_nat (snd (shape pix0)) / 1000, of_nat (fst (shape pix0)) / 1000),
                fig_dpi = 100,
                images = black_background pix0 # calls \<rparr>)"

text \<open>Lines 192 and 193: the file name of one image.\<close>

definition fname_of :: "string \<Rightarrow> int \<Rightarrow> int \<Rightarrow> int list \<Rightarrow> py_error + path" where
  "fname_of output_fmt i zindex chans =
     (case format_str output_fmt [str_int i, str_int zindex, join ''-'' (map str_int chans)] of
        Inl e \<Rightarrow> Inl e
      | Inr fname' \<Rightarrow> with_suffix (Path fname') ''.png'')"

definition warning_line :: "int \<Rightarrow> int \<Rightarrow> string" where
  "warning_line channel i =
     ''> warning: channels '' @ str_int channel @ '' does not exist for index ''
       @ str_int i @ '' - skiping''"

text \<open>
  Lines 150 to 198: one iteration of the loop over the image indices. \<^verbatim>\<open>channels\<close>
  and \<^verbatim>\<open>cmaps\<close> are assigned back to the variables of the function, so the value
  computed in one iteration is the one the next iteration finds. With no frame
  extracted, \<^verbatim>\<open>pix_arrays[0]\<close> raises IndexError and the handler formats the warning
  from \<^verbatim>\<open>channel\<close>, which raises UnboundLocalError when no iteration of the channel
  loop has bound it.
\<close>

definition loop_body ::
  "lif_file \<Rightarrow> string \<Rightarrow> int \<Rightarrow> pyval \<Rightarrow> pyval \<Rightarrow> locals \<Rightarrow> int \<Rightarrow> py_error + locals" where
  "loop_body project output_fmt zindex low_threshold high_threshold st i =
     (case get_image project i of
        Inl e \<Rightarrow> Inl e
      | Inr img \<Rightarrow>
          (let chans = (case channels_var st of None \<Rightarrow> py_range (channels img) | Some cs \<Rightarrow> cs) in
           case extract_loop img zindex chans (channel_var st) [] of
             Inl e \<Rightarrow> Inl e
           | Inr (pix_arrays, channel) \<Rightarrow>
               (case pix_arrays of
                  [] \<Rightarrow>
                    (case channel of
                       None \<Rightarrow> Inl UnboundLocalError
                     | Some c \<Rightarrow>
                         Inr (st\<lparr> channels_var := Some chans, channel_var := channel,
                                   events := events st @ [Print (warning_line c i)] \<rparr>))
                | pix0 # _ \<Rightarrow>
                    (let cmaps = (case cmaps_var st of None \<Rightarrow> map fst LUT | Some cm \<Rightarrow> cm) in
                     case render cmaps pix0 pix_arrays low_threshold high_threshold of
                       Inl e \<Rightarrow> Inl e
                     | Inr fig \<Rightarrow>
                         (case fname_of output_fmt i zindex chans of
                            Inl e \<Rightarrow> Inl e
                          | Inr fname \<Rightarrow>
                              Inr (st\<lparr> channels_var := Some chans, cmaps_var := Some cmaps,
                                        channel_var := channel,
                                        events := events st @
                                          [Savefig (fspath fname) fig,
                                           Print (''> saved: '' @ fspath fname)] \<rparr>))))))"

text \<open>
  Line 149: the loop over the indices. An exception ends the run; the result is the
  events up to it and the exception, or \<open>None\<close> when the loop ran to its end.
\<close>

fun for_indexes ::
  "lif_file \<Rightarrow> string \<Rightarrow> int \<Rightarrow> pyval \<Rightarrow> pyval \<Rightarrow> locals \<Rightarrow> int list
    \<Rightarrow> event list \<times> py_error option" where
  "for_indexes project output_fmt zindex low_threshold high_threshold st [] = (events st, None)"
| "for_indexes project output_fmt zindex low_threshold high_threshold st (i # rest) =
     (case loop_body project output_fmt zindex low_threshold high_threshold st i of
        Inl e \<Rightarrow> (events st, Some e)
      | Inr st' \<Rightarrow> for_indexes project output_fmt zindex low_threshold high_threshold st' rest)"

definition main ::
  "env \<Rightarrow> path \<Rightarrow> int list option \<Rightarrow> int list option \<Rightarrow> int \<Rightarrow> string list option
    \<Rightarrow> pyval \<Rightarrow> pyval \<Rightarrow> string option \<Rightarrow> event list \<times> py_error option" where
  "main e lif indexes chans zindex cmaps low_threshold high_threshold output =
     (case LifFile e (fspath lif) of
        Inl err \<Rightarrow> ([], Some err)
      | Inr project \<Rightarrow>
          for_indexes project (output_fmt_of e lif output) zindex low_threshold high_threshold
            \<lparr> channels_var = chans, cmaps_var = cmaps, channel_var = None, events = [] \<rparr>
            (case indexes of None \<Rightarrow> py_range (num_images project) | Some ixs \<Rightarrow> ixs))"

section \<open>The command line\<close>

text \<open>
  What the user supplied for each option of the parser \<^verbatim>\<open>ap\<close>: \<open>None\<close> when the flag
  is absent. Options declared with \<^verbatim>\<open>type=int\<close> hold the converted integers; the two
  threshold options declare no type and hold the token itself. \<^verbatim>\<open>--output\<close> has
  \<^verbatim>\<open>nargs='?'\<close>: the flag may come without a value.
\<close>

record cmdline =
  arg_lif :: string
  arg_indexes :: "int list option"
  arg_channels :: "int list option"
  arg_zindex :: "int option"
  arg_lut :: "string list option"
  arg_low_threshold :: "string option"
  arg_high_threshold :: "string option"
  arg_output :: "string option option"

text \<open>The namespace \<^verbatim>\<open>ap.parse_args()\<close> returns: one attribute per \<^verbatim>\<open>dest\<close>.\<close>

record namespace =
  ns_lif :: path
  ns_indexes :: "int list option"
  ns_channels :: "int list option"
  ns_zindex :: int
  ns_cmaps :: "string list option"
  ns_low_threshold :: pyval
  ns_high_threshold :: pyval
  ns_output :: "string option"

text \<open>\<^verbatim>\<open>nargs='+'\<close> refuses an empty list of values.\<close>

definition nargs_plus_ok :: "'a list option \<Rightarrow> bool" where
  "nargs_plus_ok v = (case v of None \<Rightarrow> True | Some xs \<Rightarrow> xs \<noteq> [])"

definition parse_args :: "cmdline \<Rightarrow> py_error + namespace" where
  "parse_args a =
     (if nargs_plus_ok (arg_indexes a) \<and> nargs_plus_ok (arg_channels a)
         \<and> nargs_plus_ok (arg_lut a)
         \<and> list_all (\<lambda>c. c \<in> set (map fst LUT)) (case arg_lut a of None \<Rightarrow> [] | Some cs \<Rightarrow> cs)
      then
        Inr \<lparr> ns_lif = Path (arg_lif a),
              ns_indexes = arg_indexes a,
              ns_channels = arg_channels a,
              ns_zindex = (case arg_zindex a of None \<Rightarrow> 0 | Some z \<Rightarrow> z),
              ns_cmaps = arg_lut a,
              ns_low_threshold = (case arg_low_threshold a of None \<Rightarrow> PyInt 0 | Some tok \<Rightarrow> PyStr tok),
              ns_high_threshold = (case arg_high_threshold a of None \<Rightarrow> PyInt 4095 | Some tok \<Rightarrow> PyStr tok),
              ns_output = (case arg_output a of None \<Rightarrow> None | Some v \<Rightarrow> v) \<rparr>
      else Inl SystemExit)"

definition maincli :: "env \<Rightarrow> cmdline \<Rightarrow> event list \<times> py_error option" where
  "maincli e a =
     (case parse_args a of
        Inl err \<Rightarrow> ([], Some err)
      | Inr cmd \<Rightarrow>
          main e (ns_lif cmd) (ns_indexes cmd) (ns_channels cmd) (ns_zindex cmd) (ns_cmaps cmd)
            (ns_low_threshold cmd) (ns_high_threshold cmd) (ns_output cmd))"

section \<open>A sample project\<close>

text \<open>
  A reader whose images have the listed channel counts: image \<open>k\<close> has the channels
  \<open>0\<close> to \<open>ns ! k - 1\<close> at z-slice 0, each a 1 by 2 frame, and raises ValueError for
  any other frame; \<^verbatim>\<open>get_image\<close> raises ValueError outside the list.
\<close>

definition sample_image :: "int \<Rightarrow> lif_image" where
  "sample_image n =
     \<lparr> channels = n,
       get_frame = (\<lambda>z t c. if z = 0 \<and> t = 0 \<and> 0 \<le> c \<and> c < n then Inr [[c, c + 10]]
                             else Inl ValueError) \<rparr>"

definition sample_project :: "int list \<Rightarrow> lif_file" where
  "sample_project ns =
     \<lparr> num_images = int (length ns),
       get_image = (\<lambda>i. if 0 \<le> i \<and> i < int (length ns) then Inr (sample_image (ns ! nat i))
                         else Inl ValueError) \<rparr>"

definition sample_env :: "int list \<Rightarrow> env" where
  "sample_env ns =
     \<lparr> LifFile = (\<lambda>p. if p = ''project.lif'' then Inr (sample_project ns) else Inl OtherError),
       is_dir = (\<lambda>p. False) \<rparr>"

text \<open>The command line \<^verbatim>\<open>--lif project.lif\<close> with no other flag.\<close>

definition only_lif :: cmdline where
  "only_lif =
     \<lparr> arg_lif = ''project.lif'', arg_indexes = None, arg_channels = None, arg_zindex = None,
       arg_lut = None, arg_low_threshold = None, arg_high_threshold = None,
       arg_output = None \<rparr>"

text \<open>The files a run wrote and the figures it saved, read off its events.\<close>

definition saved_files :: "event list \<Rightarrow> string list" where
  "saved_files evs = concat (map (\<lambda>ev. case ev of Savefig f fig \<Rightarrow> [f] | Print s \<Rightarrow> []) evs)"

definition saved_figures :: "event list \<Rightarrow> figure list" where
  "saved_figures evs = concat (map (\<lambda>ev. case ev of Savefig f fig \<Rightarrow> [fig] | Print s \<Rightarrow> []) evs)"

text \<open>The same command line with \<^verbatim>\<open>--low-threshold 100\<close>, and with \<^verbatim>\<open>--output out.v1\<close>.\<close>

definition lo_100 :: cmdline where
  "lo_100 = only_lif\<lparr>arg_low_threshold := Some ''100''\<rparr>"

definition out_v1 :: cmdline where
  "out_v1 = only_lif\<lparr>arg_output := Some (Some ''out.v1'')\<rparr>"

text \<open>
  Every channel call (every call after the first) of every saved figure was given the
  bounds \<open>lo\<close> and \<open>hi\<close>.
\<close>

definition bounds_ok :: "pyval \<Rightarrow> pyval \<Rightarrow> event list \<Rightarrow> bool" where
  "bounds_ok lo hi evs =
     list_all (\<lambda>fig. list_all (\<lambda>c. im_vmin c = lo \<and> im_vmax c = hi) (tl (images fig)))
       (saved_figures evs)"

section \<open>Channel extraction\<close>

lemma extract_loop_acc:
  "extract_loop img zindex chans channel acc =
     (let ok = takeWhile (\<lambda>c. \<not> isl (get_frame img zindex 0 c)) chans;
          frames = map (\<lambda>c. projr (get_frame img zindex 0 c)) ok
      in case drop (length ok) chans of
           [] \<Rightarrow> Inr (acc @ frames, if chans = [] then channel else Some (last chans))
         | c # _ \<Rightarrow>
             if get_frame img zindex 0 c = Inl ValueError then Inr (acc @ frames, Some c)
             else Inl (projl (get_frame img zindex 0 c)))"
proof (induction chans arbitrary: channel acc)
  case Nil
  show ?case by simp
next
  case (Cons c cs)
  show ?case
  proof (cases "get_frame img zindex 0 c")
    case (Inl e)
    then show ?thesis by (simp add: Let_def)
  next
    case (Inr fr)
    then show ?thesis
      by (simp add: Cons.IH Let_def split: list.splits)
  qed
qed

text \<open>
  C1. The channel loop, started with no frame, fetches the channels in the listed order.
  Let \<open>ok\<close> be the longest prefix of the requested channels whose fetches all return a
  frame. If every fetch succeeds the result is the frames of all channels. Otherwise the
  loop stops at the first channel \<open>c\<close> after \<open>ok\<close>: when its fetch raised ValueError the
  result is exactly the frames of \<open>ok\<close>, in order, and no later channel is fetched or
  kept; when it raised anything else, that exception propagates.
\<close>

theorem extract_loop_prefix:
  "extract_loop img zindex chans channel [] =
     (let ok = takeWhile (\<lambda>c. \<not> isl (get_frame img zindex 0 c)) chans;
          frames = map (\<lambda>c. projr (get_frame img zindex 0 c)) ok
      in case drop (length ok) chans of
           [] \<Rightarrow> Inr (frames, if chans = [] then channel else Some (last chans))
         | c # _ \<Rightarrow>
             if get_frame img zindex 0 c = Inl ValueError then Inr (frames, Some c)
             else Inl (projl (get_frame img zindex 0 c)))"
  unfolding extract_loop_acc [of img zindex chans channel "[]"] append_Nil by (rule refl)

theorem extract_loop_prefix_witness:
  "extract_loop (sample_image 2) 0 [0, 1, 2, 3] None [] = Inr ([[[0, 10]], [[1, 11]]], Some 2)"
  using extract_loop_prefix [of "sample_image 2" 0 "[0, 1, 2, 3]" None]
  by (simp add: sample_image_def)

section \<open>Skipping an image with no frame\<close>

lemma loop_body_first_channel_missing:
  assumes "get_image project i = Inr img"
    and "(case channels_var st of None \<Rightarrow> py_range (channels img) | Some cs \<Rightarrow> cs) = c # cs"
    and "get_frame img z 0 c = Inl ValueError"
  shows "loop_body project fmt z lo hi st i
       = Inr (st\<lparr> channels_var := Some (c # cs), channel_var := Some c,
                   events := events st @ [Print (warning_line c i)] \<rparr>)"
  using assms by (simp add: loop_body_def)

theorem loop_body_first_channel_missing_witness:
  "loop_body (sample_project [2]) ''p_i{}_z{}_c{}'' 5 (PyInt 0) (PyInt 4095)
       \<lparr> channels_var = None, cmaps_var = None, channel_var = None, events = [] \<rparr> 0
     = Inr \<lparr> channels_var = Some [0, 1], cmaps_var = None, channel_var = Some 0,
             events = [Print ''> warning: channels 0 does not exist for index 0 - skiping''] \<rparr>"
proof -
  have h1: "get_image (sample_project [2]) 0 = Inr (sample_image 2)"
    by (simp add: sample_project_def)
  have h2: "(case channels_var \<lparr> channels_var = None, cmaps_var = None, channel_var = None,
                                 events = [] \<rparr> of
               None \<Rightarrow> py_range (channels (sample_image 2)) | Some cs \<Rightarrow> cs) = 0 # [1]"
    by (simp add: sample_image_def py_range_def upto.simps)
  have h3: "get_frame (sample_image 2) 5 0 0 = Inl ValueError"
    by (simp add: sample_image_def)
  have w: "warning_line 0 0 = ''> warning: channels 0 does not exist for index 0 - skiping''"
    by (simp add: warning_line_def str_int_def digit_char_def)
  from loop_body_first_channel_missing [OF h1 h2 h3, of "''p_i{}_z{}_c{}''" "PyInt 0" "PyInt 4095"] w
  show ?thesis by simp
qed

text \<open>
  C2. An image whose extraction yields no frame is to be skipped with a warning and the
  run is to go on. When the first requested channel fails this is what happens, as the
  lemma above shows. When the first image reports zero channels the
  channel loop never binds \<^verbatim>\<open>channel\<close>, the warning cannot be formatted, and the run
  ends in UnboundLocalError before anything is printed or saved; the second image, which
  has two channels, is never processed.
\<close>

theorem zero_channels_run_aborts:
  "maincli (sample_env [0, 2]) only_lif = ([], Some UnboundLocalError)"
  by code_simp

section \<open>Painting\<close>

lemma paint_Inr_length:
  "paint ps lo hi a = Inr calls \<Longrightarrow> length calls = length ps"
  by (induction ps arbitrary: calls) (auto split: option.splits sum.splits)

lemma paint_Inr_nth:
  "paint ps lo hi a = Inr calls \<Longrightarrow> k < length ps \<Longrightarrow>
     im_data (calls ! k) = snd (ps ! k) \<and> map_of LUT (fst (ps ! k)) = Some (im_cmap (calls ! k))
     \<and> im_vmin (calls ! k) = lo \<and> im_vmax (calls ! k) = hi \<and> im_alpha (calls ! k) = Some a"
proof (induction ps arbitrary: calls k)
  case Nil
  then show ?case by simp
next
  case (Cons p ps)
  obtain cmap pix where p: "p = (cmap, pix)" by (cases p)
  from Cons.prems(1) p obtain cm rest where
    cm: "map_of LUT cmap = Some cm" and rest: "paint ps lo hi a = Inr rest"
    and calls: "calls = \<lparr> im_data = pix, im_cmap = cm, im_vmin = lo, im_vmax = hi,
                          im_alpha = Some a \<rparr> # rest"
    by (auto split: option.splits sum.splits)
  show ?case
  proof (cases k)
    case 0
    then show ?thesis using p cm calls by simp
  next
    case (Suc j)
    then have "j < length ps" using Cons.prems(2) by simp
    from Cons.IH [OF rest this] show ?thesis using Suc calls by simp
  qed
qed

lemma paint_total:
  "list_all (\<lambda>p. map_of LUT (fst p) \<noteq> None) ps \<Longrightarrow> \<exists>calls. paint ps lo hi a = Inr calls"
  by (induction ps) (auto split: option.splits sum.splits)

lemma render_Inr:
  "render cmaps pix0 pix_arrays lo hi = Inr fig \<Longrightarrow>
     \<exists>calls. paint (zip cmaps pix_arrays) lo hi (alpha_of pix_arrays) = Inr calls
       \<and> images fig = black_background pix0 # calls"
  by (auto simp: render_def split: sum.splits)

lemma zip_take_right: "zip (take (length ys) xs) ys = zip xs ys"
proof (induction xs arbitrary: ys)
  case Nil
  show ?case by simp
next
  case (Cons x xs)
  show ?case using Cons.IH by (cases ys) simp_all
qed

text \<open>
  C3. In a figure that was rendered, the first call (the background) carries no alpha at
  all; with two or more extracted arrays every channel call carries alpha 1/2; with
  exactly one extracted array every channel call carries alpha 1, and when a LUT name is
  there to pair it with, that one array is painted, with alpha 1.
\<close>

theorem alpha_blend_rule:
  assumes "render cmaps pix0 pix_arrays lo hi = Inr fig"
  shows "im_alpha (hd (images fig)) = None
    \<and> (2 \<le> length pix_arrays \<longrightarrow> (\<forall>c \<in> set (tl (images fig)). im_alpha c = Some (1 / 2)))
    \<and> (length pix_arrays = 1 \<longrightarrow> (\<forall>c \<in> set (tl (images fig)). im_alpha c = Some 1))
    \<and> (length pix_arrays = 1 \<and> cmaps \<noteq> [] \<longrightarrow> map im_alpha (tl (images fig)) = [Some 1])"
proof -
  from render_Inr [OF assms] obtain calls where
    p: "paint (zip cmaps pix_arrays) lo hi (alpha_of pix_arrays) = Inr calls"
    and im: "images fig = black_background pix0 # calls" by blast
  have len: "length calls = length (zip cmaps pix_arrays)" by (rule paint_Inr_length [OF p])
  have al: "im_alpha c = Some (alpha_of pix_arrays)" if "c \<in> set calls" for c
  proof -
    from that obtain k where k: "k < length calls" and c: "c = calls ! k"
      by (auto simp: in_set_conv_nth)
    from paint_Inr_nth [OF p, of k] k len c show ?thesis by simp
  qed
  have bg: "im_alpha (hd (images fig)) = None" by (simp add: im black_background_def)
  have two: "2 \<le> length pix_arrays \<longrightarrow> (\<forall>c \<in> set (tl (images fig)). im_alpha c = Some (1 / 2))"
    using al by (simp add: im alpha_of_def)
  have one: "length pix_arrays = 1 \<longrightarrow> (\<forall>c \<in> set (tl (images fig)). im_alpha c = Some 1)"
    using al by (simp add: im alpha_of_def)
  have single: "length pix_arrays = 1 \<and> cmaps \<noteq> [] \<longrightarrow> map im_alpha (tl (images fig)) = [Some 1]"
  proof
    assume h: "length pix_arrays = 1 \<and> cmaps \<noteq> []"
    then have "length calls = 1" using len by (cases cmaps) simp_all
    then obtain c where cs: "calls = [c]" by (cases calls) simp_all
    with al [of c] h show "map im_alpha (tl (images fig)) = [Some 1]"
      by (simp add: im alpha_of_def)
  qed
  from bg two one single show ?thesis by blast
qed

theorem alpha_blend_rule_witness:
  "render [''red'', ''green''] [[3]] [[[3]], [[4]]] (PyInt 0) (PyInt 4095)
     = Inr \<lparr> figsize = (1 / 1000, 1 / 1000), fig_dpi = 100,
             images = [black_background [[3]],
               \<lparr> im_data = [[3]], im_cmap = cmap_red, im_vmin = PyInt 0, im_vmax = PyInt 4095,
                 im_alpha = Some (1 / 2) \<rparr>,
               \<lparr> im_data = [[4]], im_cmap = cmap_green, im_vmin = PyInt 0, im_vmax = PyInt 4095,
                 im_alpha = Some (1 / 2) \<rparr>] \<rparr>
   \<and> im_alpha (black_background [[3]]) = None"
proof -
  have h: "render [''red'', ''green''] [[3]] [[[3]], [[4]]] (PyInt 0) (PyInt 4095)
     = Inr \<lparr> figsize = (1 / 1000, 1 / 1000), fig_dpi = 100,
             images = [black_background [[3]],
               \<lparr> im_data = [[3]], im_cmap = cmap_red, im_vmin = PyInt 0, im_vmax = PyInt 4095,
                 im_alpha = Some (1 / 2) \<rparr>,
               \<lparr> im_data = [[4]], im_cmap = cmap_green, im_vmin = PyInt 0, im_vmax = PyInt 4095,
                 im_alpha = Some (1 / 2) \<rparr>] \<rparr>"
    by (simp add: render_def alpha_of_def LUT_def shape_def)
  show ?thesis using h alpha_blend_rule [OF h] by simp
qed

text \<open>
  C4. The first call painted on the figure of an image is the constant array of the shape
  of the first frame, with the bright-field map and the bounds 0 and 1. The constant is
  1: every sample sits on the upper bound \<open>im_vmax\<close>, the end of the map whose colour is
  white, not on the lower bound, whose colour is black.
\<close>

theorem background_painted_at_upper_bound:
  "map (\<lambda>fig. hd (images fig)) (saved_figures (fst (maincli (sample_env [1]) only_lif)))
     = [\<lparr> im_data = [[1, 1]], im_cmap = from_list ''mycmap'' [''black'', ''white''],
          im_vmin = PyInt 0, im_vmax = PyInt 1, im_alpha = None \<rparr>]"
  by code_simp

text \<open>
  C9. A figure that was rendered holds the background and one call for each of the first
  \<open>min (length cmaps) (length pix_arrays)\<close> positions, call \<open>k\<close> painting array \<open>k\<close> with
  the map of name \<open>k\<close>; arrays beyond the names are not painted. Names beyond the arrays
  change nothing, not even an exception. When the names that are paired are keys of the
  LUT, rendering raises nothing, whatever the two lengths are.
\<close>

theorem zip_pairs_to_shorter:
  "(render cmaps pix0 pix_arrays lo hi = Inr fig \<longrightarrow>
      length (images fig) = 1 + min (length cmaps) (length pix_arrays)
      \<and> (\<forall>k < min (length cmaps) (length pix_arrays).
            im_data (images fig ! Suc k) = pix_arrays ! k
            \<and> map_of LUT (cmaps ! k) = Some (im_cmap (images fig ! Suc k))))
   \<and> render cmaps pix0 pix_arrays lo hi = render (take (length pix_arrays) cmaps) pix0 pix_arrays lo hi
   \<and> (list_all (\<lambda>c. map_of LUT c \<noteq> None) (take (length pix_arrays) cmaps) \<longrightarrow>
        (\<exists>fig'. render cmaps pix0 pix_arrays lo hi = Inr fig'))"
proof -
  have a: "length (images fig) = 1 + min (length cmaps) (length pix_arrays)
      \<and> (\<forall>k < min (length cmaps) (length pix_arrays).
            im_data (images fig ! Suc k) = pix_arrays ! k
            \<and> map_of LUT (cmaps ! k) = Some (im_cmap (images fig ! Suc k)))"
    if r: "render cmaps pix0 pix_arrays lo hi = Inr fig"
  proof -
    from render_Inr [OF r] obtain calls where
      p: "paint (zip cmaps pix_arrays) lo hi (alpha_of pix_arrays) = Inr calls"
      and im: "images fig = black_background pix0 # calls" by blast
    have len: "length calls = min (length cmaps) (length pix_arrays)"
      using paint_Inr_length [OF p] by simp
    have "im_data (calls ! k) = pix_arrays ! k \<and> map_of LUT (cmaps ! k) = Some (im_cmap (calls ! k))"
      if "k < min (length cmaps) (length pix_arrays)" for k
      using paint_Inr_nth [OF p, of k] that by simp
    with len im show ?thesis by simp
  qed
  have zt: "zip (take (length pix_arrays) cmaps) pix_arrays = zip cmaps pix_arrays"
    by (rule zip_take_right)
  have b: "render cmaps pix0 pix_arrays lo hi = render (take (length pix_arrays) cmaps) pix0 pix_arrays lo hi"
    by (simp add: render_def zt)
  have c: "\<exists>fig'. render cmaps pix0 pix_arrays lo hi = Inr fig'"
    if ok: "list_all (\<lambda>c. map_of LUT c \<noteq> None) (take (length pix_arrays) cmaps)"
  proof -
    have "list_all (\<lambda>p. map_of LUT (fst p) \<noteq> None) (zip (take (length pix_arrays) cmaps) pix_arrays)"
      using ok by (auto simp: list_all_iff dest: set_zip_leftD)
    then obtain calls where "paint (zip cmaps pix_arrays) lo hi (alpha_of pix_arrays) = Inr calls"
      using paint_total zt by metis
    then show ?thesis by (simp add: render_def)
  qed
  from a b c show ?thesis by blast
qed

theorem zip_pairs_to_shorter_witness:
  "render [''red''] [[3]] [[[3]], [[4]]] (PyInt 0) (PyInt 4095)
     = Inr \<lparr> figsize = (1 / 1000, 1 / 1000), fig_dpi = 100,
             images = [black_background [[3]],
               \<lparr> im_data = [[3]], im_cmap = cmap_red, im_vmin = PyInt 0, im_vmax = PyInt 4095,
                 im_alpha = Some (1 / 2) \<rparr>] \<rparr>
   \<and> render [''red'', ''green'', ''cyan''] [[3]] [[[3]]] (PyInt 0) (PyInt 4095)
     = render [''red''] [[3]] [[[3]]] (PyInt 0) (PyInt 4095)"
proof -
  have v: "render [''red''] [[3]] [[[3]], [[4]]] (PyInt 0) (PyInt 4095)
     = Inr \<lparr> figsize = (1 / 1000, 1 / 1000), fig_dpi = 100,
             images = [black_background [[3]],
               \<lparr> im_data = [[3]], im_cmap = cmap_red, im_vmin = PyInt 0, im_vmax = PyInt 4095,
                 im_alpha = Some (1 / 2) \<rparr>] \<rparr>"
    by (simp add: render_def alpha_of_def LUT_def shape_def)
  from zip_pairs_to_shorter [of "[''red'', ''green'', ''cyan'']" "[[3]]" "[[[3]]]" "PyInt 0" "PyInt 4095"]
  have w: "render [''red'', ''green'', ''cyan''] [[3]] [[[3]]] (PyInt 0) (PyInt 4095)
     = render [''red''] [[3]] [[[3]]] (PyInt 0) (PyInt 4095)" by simp
  from v w show ?thesis by simp
qed

section \<open>Defaults across iterations and output names\<close>

lemma loop_body_channels_default:
  assumes "get_image project i = Inr img"
  shows "loop_body project fmt z lo hi (st\<lparr>channels_var := None\<rparr>) i
       = loop_body project fmt z lo hi (st\<lparr>channels_var := Some (py_range (channels img))\<rparr>) i"
  using assms
  by (simp add: loop_body_def Let_def split: sum.splits list.splits option.splits prod.splits)

lemma for_indexes_channels_default:
  assumes "get_image project i = Inr img"
  shows "for_indexes project fmt z lo hi (st\<lparr>channels_var := None\<rparr>) (i # rest)
       = for_indexes project fmt z lo hi (st\<lparr>channels_var := Some (py_range (channels img))\<rparr>) (i # rest)"
  by (simp add: loop_body_channels_default [OF assms] cong: sum.case_cong)

lemma loop_body_cmaps_default:
  "(case loop_body project fmt z lo hi (st\<lparr>cmaps_var := None\<rparr>) i of
      Inl e \<Rightarrow> loop_body project fmt z lo hi (st\<lparr>cmaps_var := Some (map fst LUT)\<rparr>) i = Inl e
    | Inr st1 \<Rightarrow>
        (\<exists>st2. loop_body project fmt z lo hi (st\<lparr>cmaps_var := Some (map fst LUT)\<rparr>) i = Inr st2
           \<and> (st2 = st1 \<or> (st1 = st2\<lparr>cmaps_var := None\<rparr> \<and> cmaps_var st2 = Some (map fst LUT)))))"
  by (simp add: loop_body_def Let_def split: sum.splits list.splits option.splits prod.splits)

lemma for_indexes_cmaps_default:
  "for_indexes project fmt z lo hi (st\<lparr>cmaps_var := None\<rparr>) ixs
     = for_indexes project fmt z lo hi (st\<lparr>cmaps_var := Some (map fst LUT)\<rparr>) ixs"
proof (induction ixs arbitrary: st)
  case Nil
  show ?case by simp
next
  case (Cons i ixs)
  show ?case
  proof (cases "loop_body project fmt z lo hi (st\<lparr>cmaps_var := None\<rparr>) i")
    case (Inl e)
    with loop_body_cmaps_default [of project fmt z lo hi st i] show ?thesis by simp
  next
    case (Inr st1)
    with loop_body_cmaps_default [of project fmt z lo hi st i] obtain st2 where
      b: "loop_body project fmt z lo hi (st\<lparr>cmaps_var := Some (map fst LUT)\<rparr>) i = Inr st2"
      and r: "st2 = st1 \<or> (st1 = st2\<lparr>cmaps_var := None\<rparr> \<and> cmaps_var st2 = Some (map fst LUT))"
      by auto
    from r show ?thesis
    proof
      assume "st2 = st1"
      with Inr b show ?thesis by simp
    next
      assume h: "st1 = st2\<lparr>cmaps_var := None\<rparr> \<and> cmaps_var st2 = Some (map fst LUT)"
      then have "st2 = st2\<lparr>cmaps_var := Some (map fst LUT)\<rparr>" by simp
      with Cons.IH [of st2] h have
        "for_indexes project fmt z lo hi st1 ixs = for_indexes project fmt z lo hi st2 ixs" by simp
      with Inr b show ?thesis by simp
    qed
  qed
qed

lemma loop_body_keeps_defaults:
  assumes "loop_body project fmt z lo hi st j = Inr st'"
  shows "channels_var st' \<noteq> None
    \<and> (channels_var st = Some cs \<longrightarrow> channels_var st' = Some cs)
    \<and> (cmaps_var st = Some cm \<longrightarrow> cmaps_var st' = Some cm)"
  using assms
  by (auto simp: loop_body_def Let_def split: sum.splits list.splits option.splits prod.splits)

text \<open>
  C6. When the project opens and the first processed index \<open>i\<close> has an image, a run
  with \<^verbatim>\<open>channels\<close> unspecified is, event for event and exception for exception, the run
  with \<^verbatim>\<open>channels\<close> given as the range of the channel count of image \<open>i\<close>: the list
  defaulted at the first image is the list every later image is processed and named
  with, whatever its own channel count. Likewise a run with \<^verbatim>\<open>cmaps\<close> unspecified is
  the run with \<^verbatim>\<open>cmaps\<close> given as the keys of the LUT. And an iteration that returns
  leaves \<^verbatim>\<open>channels\<close> set, and leaves a \<^verbatim>\<open>channels\<close> or \<^verbatim>\<open>cmaps\<close> that was
  set as it found it.
\<close>

theorem defaults_persist:
  assumes "LifFile e (fspath lif) = Inr project"
    and "(case indexes of None \<Rightarrow> py_range (num_images project) | Some ixs \<Rightarrow> ixs) = i # rest"
    and "get_image project i = Inr img"
  shows "main e lif indexes None z cmaps lo hi out
           = main e lif indexes (Some (py_range (channels img))) z cmaps lo hi out
       \<and> main e lif indexes chans z None lo hi out
           = main e lif indexes chans z (Some (map fst LUT)) lo hi out
       \<and> (loop_body project fmt z lo hi st j = Inr st' \<longrightarrow>
            channels_var st' \<noteq> None
            \<and> (channels_var st = Some cs \<longrightarrow> channels_var st' = Some cs)
            \<and> (cmaps_var st = Some cm \<longrightarrow> cmaps_var st' = Some cm))"
proof -
  have a: "main e lif indexes None z cmaps lo hi out
           = main e lif indexes (Some (py_range (channels img))) z cmaps lo hi out"
    using for_indexes_channels_default [OF assms(3),
        of "output_fmt_of e lif out" z lo hi
           "\<lparr> channels_var = None, cmaps_var = cmaps, channel_var = None, events = [] \<rparr>" rest]
    by (simp add: main_def assms(1) assms(2))
  have b: "main e lif indexes chans z None lo hi out
           = main e lif indexes chans z (Some (map fst LUT)) lo hi out"
    using for_indexes_cmaps_default [of project "output_fmt_of e lif out" z lo hi
           "\<lparr> channels_var = chans, cmaps_var = None, channel_var = None, events = [] \<rparr>"]
    by (simp add: main_def assms(1))
  have c: "loop_body project fmt z lo hi st j = Inr st' \<longrightarrow>
            channels_var st' \<noteq> None
            \<and> (channels_var st = Some cs \<longrightarrow> channels_var st' = Some cs)
            \<and> (cmaps_var st = Some cm \<longrightarrow> cmaps_var st' = Some cm)"
    using loop_body_keeps_defaults [of project fmt z lo hi st j st' cs cm] by blast
  from a b c show ?thesis by blast
qed

theorem defaults_persist_witness:
  "LifFile (sample_env [1, 2]) (fspath (Path ''project.lif'')) = Inr (sample_project [1, 2])
   \<and> py_range (num_images (sample_project [1, 2])) = 0 # [1]
   \<and> get_image (sample_project [1, 2]) 0 = Inr (sample_image 1)
   \<and> main (sample_env [1, 2]) (Path ''project.lif'') None None 0 None (PyInt 0) (PyInt 4095) None
       = main (sample_env [1, 2]) (Path ''project.lif'') None (Some [0]) 0 None (PyInt 0) (PyInt 4095) None
   \<and> saved_files (fst (main (sample_env [1, 2]) (Path ''project.lif'') None None 0 None
         (PyInt 0) (PyInt 4095) None))
       = [''project_i0_z0_c0.png'', ''project_i1_z0_c0.png'']"
proof -
  have h1: "LifFile (sample_env [1, 2]) (fspath (Path ''project.lif'')) = Inr (sample_project [1, 2])"
    by (simp add: sample_env_def fspath_def Path_def)
  have h2: "(case None of None \<Rightarrow> py_range (num_images (sample_project [1, 2])) | Some ixs \<Rightarrow> ixs) = 0 # [1]"
    by (simp add: sample_project_def py_range_def upto.simps)
  have h3: "get_image (sample_project [1, 2]) 0 = Inr (sample_image 1)"
    by (simp add: sample_project_def)
  have r: "py_range (channels (sample_image 1)) = [0]"
    by (simp add: sample_image_def py_range_def upto.simps)
  have f: "saved_files (fst (main (sample_env [1, 2]) (Path ''project.lif'') None (Some [0]) 0 None
         (PyInt 0) (PyInt 4095) None))
       = [''project_i0_z0_c0.png'', ''project_i1_z0_c0.png'']"
    by code_simp
  from defaults_persist [OF h1 h2 h3, where z = 0 and cmaps = None and lo = "PyInt 0"
      and hi = "PyInt 4095" and out = None and chans = None, THEN conjunct1] r
  have e: "main (sample_env [1, 2]) (Path ''project.lif'') None None 0 None (PyInt 0) (PyInt 4095) None
       = main (sample_env [1, 2]) (Path ''project.lif'') None (Some [0]) 0 None (PyInt 0) (PyInt 4095) None"
    by simp
  from h1 h2 h3 e f show ?thesis by simp
qed

text \<open>
  C5. The run \<^verbatim>\<open>--lif project.lif\<close> on a project of two images, the first with one
  channel and the second with two, extracts without any failure and ends normally. It
  writes two files; the second is named with the channel list of the first image,
  \<^verbatim>\<open>c0\<close>, not with the channels \<^verbatim>\<open>c0-1\<close> of the second image.
\<close>

theorem second_image_named_by_first_channels:
  "saved_files (fst (maincli (sample_env [1, 2]) only_lif))
     = [''project_i0_z0_c0.png'', ''project_i1_z0_c0.png'']
   \<and> snd (maincli (sample_env [1, 2]) only_lif) = None"
  by code_simp

text \<open>
  C7. With the output prefix \<^verbatim>\<open>out.v1\<close>, which is not a directory, the names formatted
  for the two images are \<^verbatim>\<open>out.v1_i0_z0_c0-1\<close> and \<^verbatim>\<open>out.v1_i1_z0_c0-1\<close>;
  \<^verbatim>\<open>with_suffix\<close> takes everything from the dot of the prefix on as the old suffix,
  so both images are saved as \<^verbatim>\<open>out.png\<close> and the pattern of index, z and channels
  is lost.
\<close>

theorem dotted_prefix_loses_pattern:
  "map_sum id fspath (fname_of (output_fmt_of (sample_env [2, 2]) (Path ''project.lif'') (Some ''out.v1'')) 0 0 [0, 1])
     = Inr ''out.png''
   \<and> saved_files (fst (maincli (sample_env [2, 2]) out_v1)) = [''out.png'', ''out.png'']"
  by code_simp

section \<open>Thresholds from the command line\<close>

lemma render_bounds:
  assumes "render cmaps pix0 pix_arrays lo hi = Inr fig"
  shows "list_all (\<lambda>c. im_vmin c = lo \<and> im_vmax c = hi) (tl (images fig))"
proof -
  from render_Inr [OF assms] obtain calls where
    p: "paint (zip cmaps pix_arrays) lo hi (alpha_of pix_arrays) = Inr calls"
    and im: "images fig = black_background pix0 # calls" by blast
  have "im_vmin c = lo \<and> im_vmax c = hi" if "c \<in> set calls" for c
  proof -
    from that obtain k where k: "k < length calls" and c: "c = calls ! k"
      by (auto simp: in_set_conv_nth)
    from paint_Inr_nth [OF p, of k] k c paint_Inr_length [OF p] show ?thesis by simp
  qed
  then show ?thesis by (simp add: im list_all_iff)
qed

lemma saved_figures_append: "saved_figures (xs @ ys) = saved_figures xs @ saved_figures ys"
  by (simp add: saved_figures_def)

lemma loop_body_bounds:
  assumes "loop_body project fmt z lo hi st i = Inr st'" and "bounds_ok lo hi (events st)"
  shows "bounds_ok lo hi (events st')"
  using assms
  by (auto simp: loop_body_def bounds_ok_def saved_figures_append saved_figures_def Let_def
        dest: render_bounds
        split: sum.splits list.splits option.splits prod.splits)

lemma for_indexes_bounds:
  "bounds_ok lo hi (events st) \<Longrightarrow> bounds_ok lo hi (fst (for_indexes project fmt z lo hi st ixs))"
proof (induction ixs arbitrary: st)
  case Nil
  then show ?case by simp
next
  case (Cons i ixs)
  show ?case
  proof (cases "loop_body project fmt z lo hi st i")
    case (Inl e)
    then show ?thesis using Cons.prems by simp
  next
    case (Inr st')
    from loop_body_bounds [OF Inr Cons.prems] have "bounds_ok lo hi (events st')" .
    from Cons.IH [OF this] Inr show ?thesis by simp
  qed
qed

lemma main_bounds: "bounds_ok lo hi (fst (main e lif indexes chans z cmaps lo hi out))"
proof (cases "LifFile e (fspath lif)")
  case (Inl err)
  then show ?thesis by (simp add: main_def bounds_ok_def saved_figures_def)
next
  case (Inr project)
  have "bounds_ok lo hi
          (events \<lparr> channels_var = chans, cmaps_var = cmaps, channel_var = None, events = [] \<rparr>)"
    by (simp add: bounds_ok_def saved_figures_def)
  from for_indexes_bounds [OF this] Inr show ?thesis by (simp add: main_def)
qed

text \<open>
  C10. The namespace holds, for each threshold, the string token when the flag was given
  and the integer default (0, 4095) when it was not; and every channel call of every
  figure a run of \<^verbatim>\<open>maincli\<close> saves received exactly these values as its bounds: a
  string on one path, an integer on the other.
\<close>

theorem thresholds_forwarded:
  "(parse_args a = Inr cmd \<longrightarrow>
      ns_low_threshold cmd = (case arg_low_threshold a of None \<Rightarrow> PyInt 0 | Some tok \<Rightarrow> PyStr tok)
      \<and> ns_high_threshold cmd = (case arg_high_threshold a of None \<Rightarrow> PyInt 4095 | Some tok \<Rightarrow> PyStr tok))
   \<and> (\<forall>fig \<in> set (saved_figures (fst (maincli e a))). \<forall>c \<in> set (tl (images fig)).
        im_vmin c = (case arg_low_threshold a of None \<Rightarrow> PyInt 0 | Some tok \<Rightarrow> PyStr tok)
        \<and> im_vmax c = (case arg_high_threshold a of None \<Rightarrow> PyInt 4095 | Some tok \<Rightarrow> PyStr tok))"
proof -
  have p: "parse_args a = Inr cmd \<longrightarrow>
      ns_low_threshold cmd = (case arg_low_threshold a of None \<Rightarrow> PyInt 0 | Some tok \<Rightarrow> PyStr tok)
      \<and> ns_high_threshold cmd = (case arg_high_threshold a of None \<Rightarrow> PyInt 4095 | Some tok \<Rightarrow> PyStr tok)"
    by (auto simp: parse_args_def split: if_splits)
  have m: "bounds_ok (case arg_low_threshold a of None \<Rightarrow> PyInt 0 | Some tok \<Rightarrow> PyStr tok)
             (case arg_high_threshold a of None \<Rightarrow> PyInt 4095 | Some tok \<Rightarrow> PyStr tok)
             (fst (maincli e a))"
  proof (cases "parse_args a")
    case (Inl err)
    then show ?thesis by (simp add: maincli_def bounds_ok_def saved_figures_def)
  next
    case (Inr c)
    then have lo: "ns_low_threshold c = (case arg_low_threshold a of None \<Rightarrow> PyInt 0 | Some tok \<Rightarrow> PyStr tok)"
      and hi: "ns_high_threshold c = (case arg_high_threshold a of None \<Rightarrow> PyInt 4095 | Some tok \<Rightarrow> PyStr tok)"
      by (auto simp: parse_args_def split: if_splits)
    show ?thesis
      using main_bounds [of "ns_low_threshold c" "ns_high_threshold c" e "ns_lif c"
          "ns_indexes c" "ns_channels c" "ns_zindex c" "ns_cmaps c" "ns_output c"]
      by (simp add: maincli_def Inr lo hi)
  qed
  from p m show ?thesis by (simp add: bounds_ok_def list_all_iff)
qed

theorem thresholds_forwarded_witness:
  "map (\<lambda>fig. map (\<lambda>c. (im_vmin c, im_vmax c)) (tl (images fig)))
       (saved_figures (fst (maincli (sample_env [1]) lo_100)))
     = [[(PyStr ''100'', PyInt 4095)]]
   \<and> map (\<lambda>fig. map (\<lambda>c. (im_vmin c, im_vmax c)) (tl (images fig)))
       (saved_figures (fst (maincli (sample_env [1]) only_lif)))
     = [[(PyInt 0, PyInt 4095)]]"
proof -
  have n1: "map (\<lambda>fig. length (tl (images fig)))
              (saved_figures (fst (maincli (sample_env [1]) lo_100))) = [1]"
    by code_simp
  have n2: "map (\<lambda>fig. length (tl (images fig)))
              (saved_figures (fst (maincli (sample_env [1]) only_lif))) = [1]"
    by code_simp
  have a1: "arg_low_threshold lo_100 = Some ''100'' \<and> arg_high_threshold lo_100 = None"
    by (simp add: lo_100_def only_lif_def)
  have a2: "arg_low_threshold only_lif = None \<and> arg_high_threshold only_lif = None"
    by (simp add: only_lif_def)
  from n1 obtain fig where f: "saved_figures (fst (maincli (sample_env [1]) lo_100)) = [fig]"
    and "length (tl (images fig)) = 1" by (auto simp: map_eq_Cons_conv)
  then obtain c where c: "tl (images fig) = [c]" by (cases "tl (images fig)") simp_all
  from thresholds_forwarded [of lo_100 undefined "sample_env [1]"] f c a1
  have w1: "im_vmin c = PyStr ''100'' \<and> im_vmax c = PyInt 4095" by simp
  from n2 obtain fig' where f': "saved_figures (fst (maincli (sample_env [1]) only_lif)) = [fig']"
    and "length (tl (images fig')) = 1" by (auto simp: map_eq_Cons_conv)
  then obtain c' where c': "tl (images fig') = [c']" by (cases "tl (images fig')") simp_all
  from thresholds_forwarded [of only_lif undefined "sample_env [1]"] f' c' a2
  have w2: "im_vmin c' = PyInt 0 \<and> im_vmax c' = PyInt 4095" by simp
  from f c w1 f' c' w2 show ?thesis by simp
qed

end
